theory Spec2Isabelle
  imports Main
begin

section \<open>Python values, exceptions and the environment\<close>

text \<open>
  The program is dynamically typed: a pet's attributes, its care schedule and its health
  records are whatever Python objects the caller or the stored document supplied. The
  values that occur are those of a JSON document: \<open>None\<close>, booleans, integers, strings,
  lists and dictionaries with string keys. A dictionary is an association list in insertion
  order whose keys are distinct; floats do not occur in the model.
\<close>

datatype pyval =
    PNone
  | PBool bool
  | PInt int
  | PStr string
  | PList "pyval list"
  | PDict "(string \<times> pyval) list"

text \<open>The exceptions (all subclasses of \<open>Exception\<close>) that the modelled code can raise.\<close>

datatype py_error = KeyError | TypeError | ValueError | AttributeError | OSError

text \<open>Sequencing of statements that may raise: the first exception ends the block.\<close>

definition and_then :: "py_error + 'a \<Rightarrow> ('a \<Rightarrow> py_error + 'b) \<Rightarrow> py_error + 'b" where
  "and_then r f = (case r of Inl e \<Rightarrow> Inl e | Inr x \<Rightarrow> f x)"

text \<open>\<open>obj[key]\<close> with a string key: only a dictionary can be subscripted by a string.\<close>

fun getitem :: "pyval \<Rightarrow> string \<Rightarrow> py_error + pyval" where
  "getitem (PDict kvs) k = (case map_of kvs k of None \<Rightarrow> Inl KeyError | Some v \<Rightarrow> Inr v)"
| "getitem _ k = Inl TypeError"

text \<open>\<open>obj.get(key, default)\<close>: only a dictionary has the method.\<close>

fun get_default :: "pyval \<Rightarrow> string \<Rightarrow> pyval \<Rightarrow> py_error + pyval" where
  "get_default (PDict kvs) k d = Inr (case map_of kvs k of None \<Rightarrow> d | Some v \<Rightarrow> v)"
| "get_default _ k d = Inl AttributeError"

text \<open>\<open>d[key] = value\<close> on a dictionary: an existing key keeps its place, a new one goes last.\<close>

fun setitem :: "(string \<times> pyval) list \<Rightarrow> string \<Rightarrow> pyval \<Rightarrow> (string \<times> pyval) list" where
  "setitem [] k v = [(k, v)]"
| "setitem ((k', v') # kvs) k v =
     (if k' = k then (k, v) # kvs else (k', v') # setitem kvs k v)"

text \<open>\<open>obj.append(x)\<close>: only a list has the method.\<close>

fun append_py :: "pyval \<Rightarrow> pyval \<Rightarrow> py_error + pyval" where
  "append_py (PList xs) x = Inr (PList (xs @ [x]))"
| "append_py _ x = Inl AttributeError"

text \<open>
  \<open>for x in obj\<close>: a list yields its elements, a dictionary its keys, a string its
  characters; nothing else is iterable.
\<close>

fun iter_py :: "pyval \<Rightarrow> py_error + pyval list" where
  "iter_py (PList xs) = Inr xs"
| "iter_py (PDict kvs) = Inr (map (\<lambda>kv. PStr (fst kv)) kvs)"
| "iter_py (PStr s) = Inr (map (\<lambda>c. PStr [c]) s)"
| "iter_py _ = Inl TypeError"

text \<open>
  An operand of integer arithmetic or comparison against an \<open>int\<close>: an \<open>int\<close>, or
  a \<open>bool\<close> (a subclass of \<open>int\<close>); any other value raises \<open>TypeError\<close>.
\<close>

fun as_int :: "pyval \<Rightarrow> py_error + int" where
  "as_int (PInt i) = Inr i"
| "as_int (PBool b) = Inr (if b then 1 else 0)"
| "as_int _ = Inl TypeError"

subsection \<open>Dates and times\<close>

text \<open>
  A naive \<open>datetime\<close> is a number of microseconds on the local time line, a
  \<open>timedelta\<close> is a difference of two. Day \<open>d\<close> begins at \<open>midnight d\<close>;
  \<open>timedelta.days\<close> is the floor of the difference in days.
\<close>

type_synonym datetime = int

definition us_per_day :: int where
  "us_per_day = 86400000000"

definition midnight :: "int \<Rightarrow> datetime" where
  "midnight d = d * us_per_day"

definition date_of :: "datetime \<Rightarrow> int" where
  "date_of t = t div us_per_day"

definition days :: "int \<Rightarrow> int" where
  "days td = td div us_per_day"

text \<open>
  \<open>datetime.strptime(v, "%Y-%m-%d")\<close>. The library's calendar is a parameter \<open>cal\<close>:
  \<open>cal s\<close> is the day number of the date that the string \<open>s\<close> denotes in that format,
  and \<open>None\<close> where the library rejects \<open>s\<close>. The format has no time fields, so the
  result is that day at 00:00:00. A value that is not a string raises \<open>TypeError\<close>.
\<close>

type_synonym calendar = "string \<Rightarrow> int option"

fun strptime :: "calendar \<Rightarrow> pyval \<Rightarrow> py_error + datetime" where
  "strptime cal (PStr s) = (case cal s of None \<Rightarrow> Inl ValueError | Some d \<Rightarrow> Inr (midnight d))"
| "strptime cal _ = Inl TypeError"

section \<open>Pet and its variants\<close>

text \<open>
  The three concrete classes, each with the one attribute it adds: \<open>size\<close> of a Dog,
  \<open>indoor\<close> of a Cat, \<open>can_fly\<close> of a Bird.
\<close>

datatype variant = Dog (size: pyval) | Cat (indoor: pyval) | Bird (can_fly: pyval)

record pet =
  variant :: variant
  name :: pyval
  age :: pyval
  breed :: pyval
  care_schedule :: pyval
  health_records :: pyval

text \<open>\<open>self.__class__.__name__\<close>\<close>

fun class_name :: "variant \<Rightarrow> string" where
  "class_name (Dog _) = ''Dog''"
| "class_name (Cat _) = ''Cat''"
| "class_name (Bird _) = ''Bird''"

text \<open>\<open>Pet.__init__\<close>, for an object of the given concrete class.\<close>

definition Pet_init :: "variant \<Rightarrow> pyval \<Rightarrow> pyval \<Rightarrow> pyval \<Rightarrow> pet" where
  "Pet_init v name' age' breed' =
     \<lparr>variant = v, name = name', age = age', breed = breed',
      care_schedule = PList [], health_records = PList []\<rparr>"

text \<open>
  \<open>add_care_task\<close>. The argument \<open>today\<close> is what the expression
  \<open>datetime.now().strftime("%Y-%m-%d")\<close> yields at this call; it is used only when
  \<open>last_done\<close> is \<open>None\<close> (also the default of the parameter).
\<close>

definition add_care_task :: "string \<Rightarrow> pyval \<Rightarrow> pyval \<Rightarrow> pyval \<Rightarrow> pet \<Rightarrow> py_error + pet" where
  "add_care_task today task frequency_days last_done self =
     (let last_done' = (if last_done = PNone then PStr today else last_done)
      in and_then
           (append_py (care_schedule self)
              (PDict [(''task'', task), (''frequency_days'', frequency_days),
                      (''last_done'', last_done')]))
           (\<lambda>cs. Inr (self\<lparr>care_schedule := cs\<rparr>)))"

text \<open>\<open>add_health_record\<close>, with \<open>today\<close> as in \<open>add_care_task\<close>.\<close>

definition add_health_record :: "string \<Rightarrow> pyval \<Rightarrow> pyval \<Rightarrow> pyval \<Rightarrow> pet \<Rightarrow> py_error + pet" where
  "add_health_record today record_type description date self =
     (let date' = (if date = PNone then PStr today else date)
      in and_then
           (append_py (health_records self)
              (PDict [(''type'', record_type), (''description'', description),
                      (''date'', date')]))
           (\<lambda>hs. Inr (self\<lparr>health_records := hs\<rparr>)))"

text \<open>
  The body of the loop of \<open>get_overdue_tasks\<close> for one task: the list \<open>overdue\<close>
  after it, or the exception it raises.
\<close>

definition overdue_step :: "calendar \<Rightarrow> datetime \<Rightarrow> pyval \<Rightarrow> pyval list \<Rightarrow> py_error + pyval list" where
  "overdue_step cal current_date task overdue =
     and_then (getitem task ''last_done'') (\<lambda>ld.
     and_then (strptime cal ld) (\<lambda>last_done.
       let days_since = days (current_date - last_done) in
       and_then (getitem task ''frequency_days'') (\<lambda>fd.
       and_then (as_int fd) (\<lambda>f.
         if days_since \<ge> f then
           and_then (getitem task ''task'') (\<lambda>t.
             Inr (overdue @ [PDict [(''task'', t),
                                    (''days_overdue'', PInt (days_since - f + 1))]]))
         else Inr overdue))))"

fun overdue_loop :: "calendar \<Rightarrow> datetime \<Rightarrow> pyval list \<Rightarrow> pyval list \<Rightarrow> py_error + pyval list" where
  "overdue_loop cal current_date [] overdue = Inr overdue"
| "overdue_loop cal current_date (task # rest) overdue =
     and_then (overdue_step cal current_date task overdue)
       (overdue_loop cal current_date rest)"

text \<open>
  \<open>get_overdue_tasks\<close>; \<open>now\<close> is the reading of \<open>datetime.now()\<close>. The result is the
  object after the call together with the returned list or the exception raised.
\<close>

definition get_overdue_tasks :: "calendar \<Rightarrow> datetime \<Rightarrow> pet \<Rightarrow> pet \<times> (py_error + pyval list)" where
  "get_overdue_tasks cal now self =
     (self, and_then (iter_py (care_schedule self))
              (\<lambda>tasks. overdue_loop cal now tasks []))"

text \<open>
  The constructors. An omitted \<open>breed\<close> or variant attribute (\<open>None\<close> here) takes the
  default of the signature. Each of the four \<open>add_care_task\<close> calls evaluates
  \<open>datetime.now().strftime("%Y-%m-%d")\<close> anew: \<open>today i\<close> is what the \<open>i\<close>-th
  evaluation yields.
\<close>

definition Dog_init :: "(nat \<Rightarrow> string) \<Rightarrow> pyval \<Rightarrow> pyval \<Rightarrow> pyval option \<Rightarrow> pyval option \<Rightarrow> py_error + pet" where
  "Dog_init today name' age' breed' size' =
     (let self = Pet_init (Dog (case size' of None \<Rightarrow> PStr ''Medium'' | Some s \<Rightarrow> s)) name' age'
                   (case breed' of None \<Rightarrow> PStr ''Mixed'' | Some b \<Rightarrow> b)
      in and_then (add_care_task (today 0) (PStr ''Walk'') (PInt 1) PNone self) (\<lambda>self.
         and_then (add_care_task (today 1) (PStr ''Feed'') (PInt 1) PNone self) (\<lambda>self.
         and_then (add_care_task (today 2) (PStr ''Bath'') (PInt 7) PNone self) (\<lambda>self.
         add_care_task (today 3) (PStr ''Vet Checkup'') (PInt 90) PNone self))))"

definition Cat_init :: "(nat \<Rightarrow> string) \<Rightarrow> pyval \<Rightarrow> pyval \<Rightarrow> pyval option \<Rightarrow> pyval option \<Rightarrow> py_error + pet" where
  "Cat_init today name' age' breed' indoor' =
     (let self = Pet_init (Cat (case indoor' of None \<Rightarrow> PBool True | Some b \<Rightarrow> b)) name' age'
                   (case breed' of None \<Rightarrow> PStr ''Mixed'' | Some b \<Rightarrow> b)
      in and_then (add_care_task (today 0) (PStr ''Feed'') (PInt 1) PNone self) (\<lambda>self.
         and_then (add_care_task (today 1) (PStr ''Litter Box Clean'') (PInt 2) PNone self) (\<lambda>self.
         and_then (add_care_task (today 2) (PStr ''Brush'') (PInt 3) PNone self) (\<lambda>self.
         add_care_task (today 3) (PStr ''Vet Checkup'') (PInt 90) PNone self))))"

definition Bird_init :: "(nat \<Rightarrow> string) \<Rightarrow> pyval \<Rightarrow> pyval \<Rightarrow> pyval option \<Rightarrow> pyval option \<Rightarrow> py_error + pet" where
  "Bird_init today name' age' breed' can_fly' =
     (let self = Pet_init (Bird (case can_fly' of None \<Rightarrow> PBool True | Some b \<Rightarrow> b)) name' age'
                   (case breed' of None \<Rightarrow> PStr ''Unknown'' | Some b \<Rightarrow> b)
      in and_then (add_care_task (today 0) (PStr ''Feed'') (PInt 1) PNone self) (\<lambda>self.
         and_then (add_care_task (today 1) (PStr ''Cage Clean'') (PInt 3) PNone self) (\<lambda>self.
         and_then (add_care_task (today 2) (PStr ''Wing Trim'') (PInt 60) PNone self) (\<lambda>self.
         add_care_task (today 3) (PStr ''Vet Checkup'') (PInt 180) PNone self))))"

text \<open>\<open>Pet.to_dict\<close>, and the override of each subclass, which adds its attribute.\<close>

definition Pet_to_dict :: "pet \<Rightarrow> (string \<times> pyval) list" where
  "Pet_to_dict self =
     [(''type'', PStr (class_name (variant self))),
      (''name'', name self),
      (''age'', age self),
      (''breed'', breed self),
      (''care_schedule'', care_schedule self),
      (''health_records'', health_records self)]"

definition to_dict :: "pet \<Rightarrow> pyval" where
  "to_dict self =
     (let data = Pet_to_dict self
      in case variant self of
           Dog size' \<Rightarrow> PDict (setitem data ''size'' size')
         | Cat indoor' \<Rightarrow> PDict (setitem data ''indoor'' indoor')
         | Bird can_fly' \<Rightarrow> PDict (setitem data ''can_fly'' can_fly'))"

section \<open>PetCareManager\<close>

text \<open>
  What the data file holds: nothing (the file does not exist), something that cannot be
  opened or parsed (reading it raises), or a JSON document.
\<close>

datatype file_content = No_file | Unreadable py_error | Document pyval

text \<open>A line printed on standard output, with the exception it reports.\<close>

datatype printed = Error_saving py_error | Error_loading py_error | Error_creating py_error

text \<open>The manager with the part of the world it acts on: the data file and the console.\<close>

record manager =
  pets :: "pet list"
  disk :: file_content
  stdout :: "printed list"

text \<open>
  What the file system does with one \<open>open(..., 'w')\<close> and \<open>json.dump\<close>: the write
  succeeds, or it raises and leaves the file in some state.
\<close>

datatype write_outcome = Written | Write_fails py_error file_content

text \<open>The \<open>try\<close> block of \<open>create_pet_from_data\<close>: the returned value, or the exception.\<close>

definition create_pet_body :: "(nat \<Rightarrow> string) \<Rightarrow> pyval \<Rightarrow> py_error + pet option" where
  "create_pet_body today data =
     and_then (getitem data ''type'') (\<lambda>pet_type.
     and_then (getitem data ''name'') (\<lambda>name'.
     and_then (getitem data ''age'') (\<lambda>age'.
     and_then (getitem data ''breed'') (\<lambda>breed'.
     and_then
       (if pet_type = PStr ''Dog'' then
          and_then (get_default data ''size'' (PStr ''Medium'')) (\<lambda>size'.
          and_then (Dog_init today name' age' (Some breed') (Some size')) (\<lambda>pet. Inr (Some pet)))
        else if pet_type = PStr ''Cat'' then
          and_then (get_default data ''indoor'' (PBool True)) (\<lambda>indoor'.
          and_then (Cat_init today name' age' (Some breed') (Some indoor')) (\<lambda>pet. Inr (Some pet)))
        else if pet_type = PStr ''Bird'' then
          and_then (get_default data ''can_fly'' (PBool True)) (\<lambda>can_fly'.
          and_then (Bird_init today name' age' (Some breed') (Some can_fly')) (\<lambda>pet. Inr (Some pet)))
        else Inr None)
       (\<lambda>created. case created of
          None \<Rightarrow> Inr None
        | Some pet \<Rightarrow>
            and_then (get_default data ''care_schedule'' (PList [])) (\<lambda>cs.
            and_then (get_default data ''health_records'' (PList [])) (\<lambda>hr.
            Inr (Some (pet\<lparr>care_schedule := cs, health_records := hr\<rparr>)))))))))"

text \<open>
  \<open>create_pet_from_data\<close>: the handler turns every exception of the block into a printed
  line and the result \<open>None\<close>. The console is passed in and returned.
\<close>

definition create_pet_from_data :: "(nat \<Rightarrow> string) \<Rightarrow> pyval \<Rightarrow> printed list \<Rightarrow> pet option \<times> printed list" where
  "create_pet_from_data today data out =
     (case create_pet_body today data of
        Inr pet \<Rightarrow> (pet, out)
      | Inl e \<Rightarrow> (None, out @ [Error_creating e]))"

text \<open>\<open>save_data\<close>, given what the file system does with the write.\<close>

definition save_data :: "write_outcome \<Rightarrow> manager \<Rightarrow> manager" where
  "save_data io self =
     (let data = PList (map to_dict (pets self))
      in case io of
           Written \<Rightarrow> self\<lparr>disk := Document data\<rparr>
         | Write_fails e f \<Rightarrow> self\<lparr>disk := f, stdout := stdout self @ [Error_saving e]\<rparr>)"

text \<open>
  The loop of \<open>load_data\<close> from record number \<open>i\<close> on; \<open>today i\<close> are the clock readings
  while record \<open>i\<close> is constructed. A \<open>Pet\<close> object is truthy, \<open>None\<close> is not.
\<close>

fun load_loop :: "(nat \<Rightarrow> nat \<Rightarrow> string) \<Rightarrow> nat \<Rightarrow> pyval list \<Rightarrow> manager \<Rightarrow> manager" where
  "load_loop today i [] self = self"
| "load_loop today i (pet_data # rest) self =
     (case create_pet_from_data (today i) pet_data (stdout self) of
        (None, out) \<Rightarrow> load_loop today (Suc i) rest (self\<lparr>stdout := out\<rparr>)
      | (Some pet, out) \<Rightarrow>
          load_loop today (Suc i) rest (self\<lparr>pets := pets self @ [pet], stdout := out\<rparr>))"

definition load_data :: "(nat \<Rightarrow> nat \<Rightarrow> string) \<Rightarrow> manager \<Rightarrow> manager" where
  "load_data today self =
     (case disk self of
        No_file \<Rightarrow> self
      | Unreadable e \<Rightarrow> self\<lparr>stdout := stdout self @ [Error_loading e]\<rparr>
      | Document data \<Rightarrow>
          (case iter_py data of
             Inl e \<Rightarrow> self\<lparr>stdout := stdout self @ [Error_loading e]\<rparr>
           | Inr records \<Rightarrow> load_loop today 0 records self))"

definition add_pet :: "write_outcome \<Rightarrow> pet \<Rightarrow> manager \<Rightarrow> manager" where
  "add_pet io pet self = save_data io (self\<lparr>pets := pets self @ [pet]\<rparr>)"

text \<open>
  \<open>remove_pet\<close> and \<open>get_pet_by_name\<close> compare \<open>pet.name\<close> with a string: among the
  values of the model only that same string is equal to it.
\<close>

definition remove_pet :: "write_outcome \<Rightarrow> string \<Rightarrow> manager \<Rightarrow> manager" where
  "remove_pet io pet_name self =
     save_data io (self\<lparr>pets := filter (\<lambda>pet. name pet \<noteq> PStr pet_name) (pets self)\<rparr>)"

definition get_pet_by_name :: "manager \<Rightarrow> string \<Rightarrow> pet option" where
  "get_pet_by_name self name' = find (\<lambda>pet. name pet = PStr name') (pets self)"

section \<open>Notions of the specification\<close>

text \<open>
  A Care Schedule Entry as the specification reads it: \<open>entry_of cal e = Some (t, f, d)\<close>
  when the dictionary \<open>e\<close> has the task \<open>t\<close>, an integer cadence \<open>f\<close> and a last-done
  string that denotes day \<open>d\<close>.
\<close>

definition entry_of :: "calendar \<Rightarrow> pyval \<Rightarrow> (pyval \<times> int \<times> int) option" where
  "entry_of cal e =
     (case (getitem e ''task'', getitem e ''frequency_days'', getitem e ''last_done'') of
        (Inr t, Inr (PInt f), Inr (PStr s)) \<Rightarrow> map_option (\<lambda>d. (t, f, d)) (cal s)
      | _ \<Rightarrow> None)"

text \<open>An element of the result of the overdue query.\<close>

definition report :: "pyval \<Rightarrow> int \<Rightarrow> pyval" where
  "report t n = PDict [(''task'', t), (''days_overdue'', PInt n)]"

text \<open>The entry that \<open>add_care_task\<close> stores for a task name, a cadence and a date string.\<close>

definition care_task :: "string \<Rightarrow> int \<Rightarrow> string \<Rightarrow> pyval" where
  "care_task t f d =
     PDict [(''task'', PStr t), (''frequency_days'', PInt f), (''last_done'', PStr d)]"

text \<open>
  A stored record that is well formed: a dictionary whose variant tag is one of the three
  class names and that has the required fields.
\<close>

definition well_formed_record :: "pyval \<Rightarrow> bool" where
  "well_formed_record r =
     (case r of
        PDict kvs \<Rightarrow>
          (map_of kvs ''type'' = Some (PStr ''Dog'') \<or> map_of kvs ''type'' = Some (PStr ''Cat'')
             \<or> map_of kvs ''type'' = Some (PStr ''Bird''))
          \<and> map_of kvs ''name'' \<noteq> None \<and> map_of kvs ''age'' \<noteq> None
          \<and> map_of kvs ''breed'' \<noteq> None
      | _ \<Rightarrow> False)"


section \<open>The overdue query\<close>

lemma days_since_midnight: "days (now - midnight d) = date_of now - d"
  by (simp add: days_def midnight_def date_of_def us_per_day_def)

lemma entry_ofD:
  assumes "entry_of cal e = Some (t, f, d)"
  shows "\<exists>s. getitem e ''task'' = Inr t \<and> getitem e ''frequency_days'' = Inr (PInt f)
      \<and> getitem e ''last_done'' = Inr (PStr s) \<and> cal s = Some d"
  using assms unfolding entry_of_def
  by (auto split: sum.splits pyval.splits option.splits)

lemma overdue_step_entry:
  assumes "entry_of cal e = Some (t, f, d)"
  shows "overdue_step cal now e acc =
     Inr (if date_of now - d \<ge> f then acc @ [report t (date_of now - d - f + 1)] else acc)"
proof -
  from entry_ofD [OF assms] obtain s where
    "getitem e ''task'' = Inr t" "getitem e ''frequency_days'' = Inr (PInt f)"
    "getitem e ''last_done'' = Inr (PStr s)" "cal s = Some d" by blast
  then show ?thesis
    by (simp add: overdue_step_def and_then_def days_since_midnight report_def)
qed

lemma overdue_loop_entries:
  assumes "map (entry_of cal) es = map Some vs"
  shows "overdue_loop cal now es acc =
     Inr (acc @ map (\<lambda>(t, f, d). report t (date_of now - d - f + 1))
                  (filter (\<lambda>(t, f, d). date_of now - d \<ge> f) vs))"
  using assms
proof (induction es arbitrary: vs acc)
  case Nil
  then show ?case by simp
next
  case (Cons e es)
  then obtain v vs' where vs: "vs = v # vs'" "entry_of cal e = Some v"
      "map (entry_of cal) es = map Some vs'"
    by (cases vs) auto
  obtain t f d where v: "v = (t, f, d)" by (cases v)
  show ?case
    using Cons.IH [OF vs(3)] overdue_step_entry [of cal e t f d now acc] vs v
    by (simp add: and_then_def)
qed

text \<open>
  C1. Let the care schedule of a pet be a list of Care Schedule Entries, the \<open>i\<close>-th with
  task \<open>t\<close>, cadence \<open>f\<close> and last-done date \<open>d\<close>, and let \<open>r\<close> be the date of the clock
  reading. The overdue query returns, in the order of the schedule, one element for each
  entry with \<open>r - d \<ge> f\<close> and none for the others, and the element reports
  \<open>days_overdue = r - d - f + 1\<close>: the time of day of the reading plays no part. So an
  entry is reported with \<open>k + 1\<close> at \<open>r = d + f + k\<close> for every \<open>k \<ge> 0\<close>.
\<close>

theorem overdue_tasks_by_days_since:
  assumes "care_schedule p = PList es"
    and "map (entry_of cal) es = map Some vs"
  shows "\<exists>res. snd (get_overdue_tasks cal now p) = Inr res
      \<and> res = map (\<lambda>(t, f, d). report t (date_of now - d - f + 1))
                 (filter (\<lambda>(t, f, d). date_of now - d \<ge> f) vs)
      \<and> (\<forall>t f d k. (t, f, d) \<in> set vs \<longrightarrow> 0 \<le> k \<longrightarrow> date_of now = d + f + k
            \<longrightarrow> report t (k + 1) \<in> set res)"
proof -
  let ?res = "map (\<lambda>(t, f, d). report t (date_of now - d - f + 1))
                 (filter (\<lambda>(t, f, d). date_of now - d \<ge> f) vs)"
  have run: "snd (get_overdue_tasks cal now p) = Inr ?res"
    using assms(1) overdue_loop_entries [OF assms(2), of now "[]"]
    by (simp add: get_overdue_tasks_def and_then_def)
  have "report t (k + 1) \<in> set ?res"
    if "(t, f, d) \<in> set vs" "0 \<le> k" "date_of now = d + f + k" for t f d k
  proof -
    from that have "(t, f, d) \<in> set (filter (\<lambda>(t, f, d). date_of now - d \<ge> f) vs)"
      by simp
    then have "(\<lambda>(t, f, d). report t (date_of now - d - f + 1)) (t, f, d) \<in> set ?res"
      unfolding set_map by (rule imageI)
    with that show ?thesis by simp
  qed
  with run show ?thesis by blast
qed

theorem overdue_tasks_by_days_since_witness:
  "care_schedule
     \<lparr>variant = Dog (PStr ''Medium''), name = PStr ''Rex'', age = PInt 3, breed = PStr ''Mixed'',
      care_schedule = PList [care_task ''Walk'' 1 ''2024-01-01'', care_task ''Bath'' 7 ''2024-01-01'',
                             care_task ''Vet Checkup'' 90 ''2024-01-01''],
      health_records = PList []\<rparr>
     = PList [care_task ''Walk'' 1 ''2024-01-01'', care_task ''Bath'' 7 ''2024-01-01'',
              care_task ''Vet Checkup'' 90 ''2024-01-01'']
   \<and> map (entry_of (map_of [(''2024-01-01'', 738886)]))
        [care_task ''Walk'' 1 ''2024-01-01'', care_task ''Bath'' 7 ''2024-01-01'',
         care_task ''Vet Checkup'' 90 ''2024-01-01'']
     = map Some [(PStr ''Walk'', 1, 738886), (PStr ''Bath'', 7, 738886),
                 (PStr ''Vet Checkup'', 90, 738886)]
   \<and> snd (get_overdue_tasks (map_of [(''2024-01-01'', 738886)])
             (midnight 738893 + 43200000000)
             \<lparr>variant = Dog (PStr ''Medium''), name = PStr ''Rex'', age = PInt 3,
              breed = PStr ''Mixed'',
              care_schedule = PList [care_task ''Walk'' 1 ''2024-01-01'',
                                     care_task ''Bath'' 7 ''2024-01-01'',
                                     care_task ''Vet Checkup'' 90 ''2024-01-01''],
              health_records = PList []\<rparr>)
     = Inr [report (PStr ''Walk'') 7, report (PStr ''Bath'') 1]"
proof -
  let ?es = "[care_task ''Walk'' 1 ''2024-01-01'', care_task ''Bath'' 7 ''2024-01-01'',
              care_task ''Vet Checkup'' 90 ''2024-01-01'']"
  let ?p = "\<lparr>variant = Dog (PStr ''Medium''), name = PStr ''Rex'', age = PInt 3,
             breed = PStr ''Mixed'', care_schedule = PList ?es, health_records = PList []\<rparr>"
  let ?cal = "map_of [(''2024-01-01'', 738886::int)]"
  let ?vs = "[(PStr ''Walk'', 1::int, 738886::int), (PStr ''Bath'', 7, 738886),
              (PStr ''Vet Checkup'', 90, 738886)]"
  have h1: "care_schedule ?p = PList ?es" by simp
  have h2: "map (entry_of ?cal) ?es = map Some ?vs"
    by (simp add: entry_of_def care_task_def)
  have r: "date_of (midnight 738893 + 43200000000) = 738893"
    by (simp add: date_of_def midnight_def us_per_day_def)
  from overdue_tasks_by_days_since [OF h1 h2, of "midnight 738893 + 43200000000"]
  have "snd (get_overdue_tasks ?cal (midnight 738893 + 43200000000) ?p)
      = Inr [report (PStr ''Walk'') 7, report (PStr ''Bath'') 1]"
    unfolding r by simp
  with h1 h2 show ?thesis by blast
qed

section \<open>Construction and serialization\<close>

lemma add_care_task_list:
  "care_schedule p = PList cs \<Longrightarrow>
   add_care_task today t f PNone p =
     Inr (p\<lparr>care_schedule :=
             PList (cs @ [PDict [(''task'', t), (''frequency_days'', f),
                                 (''last_done'', PStr today)]])\<rparr>)"
  by (simp add: add_care_task_def and_then_def)

lemma Dog_init_eq:
  "Dog_init today n a b s =
     Inr \<lparr>variant = Dog (case s of None \<Rightarrow> PStr ''Medium'' | Some x \<Rightarrow> x), name = n, age = a,
          breed = (case b of None \<Rightarrow> PStr ''Mixed'' | Some x \<Rightarrow> x),
          care_schedule = PList [care_task ''Walk'' 1 (today 0), care_task ''Feed'' 1 (today 1),
                                 care_task ''Bath'' 7 (today 2),
                                 care_task ''Vet Checkup'' 90 (today 3)],
          health_records = PList []\<rparr>"
  by (simp add: Dog_init_def Pet_init_def add_care_task_list and_then_def care_task_def)

lemma Cat_init_eq:
  "Cat_init today n a b s =
     Inr \<lparr>variant = Cat (case s of None \<Rightarrow> PBool True | Some x \<Rightarrow> x), name = n, age = a,
          breed = (case b of None \<Rightarrow> PStr ''Mixed'' | Some x \<Rightarrow> x),
          care_schedule = PList [care_task ''Feed'' 1 (today 0),
                                 care_task ''Litter Box Clean'' 2 (today 1),
                                 care_task ''Brush'' 3 (today 2),
                                 care_task ''Vet Checkup'' 90 (today 3)],
          health_records = PList []\<rparr>"
  by (simp add: Cat_init_def Pet_init_def add_care_task_list and_then_def care_task_def)

lemma Bird_init_eq:
  "Bird_init today n a b s =
     Inr \<lparr>variant = Bird (case s of None \<Rightarrow> PBool True | Some x \<Rightarrow> x), name = n, age = a,
          breed = (case b of None \<Rightarrow> PStr ''Unknown'' | Some x \<Rightarrow> x),
          care_schedule = PList [care_task ''Feed'' 1 (today 0),
                                 care_task ''Cage Clean'' 3 (today 1),
                                 care_task ''Wing Trim'' 60 (today 2),
                                 care_task ''Vet Checkup'' 180 (today 3)],
          health_records = PList []\<rparr>"
  by (simp add: Bird_init_def Pet_init_def add_care_task_list and_then_def care_task_def)

lemma to_dict_Dog:
  "variant p = Dog s \<Longrightarrow>
   to_dict p = PDict [(''type'', PStr ''Dog''), (''name'', name p), (''age'', age p),
      (''breed'', breed p), (''care_schedule'', care_schedule p),
      (''health_records'', health_records p), (''size'', s)]"
  by (simp add: to_dict_def Pet_to_dict_def)

lemma to_dict_Cat:
  "variant p = Cat s \<Longrightarrow>
   to_dict p = PDict [(''type'', PStr ''Cat''), (''name'', name p), (''age'', age p),
      (''breed'', breed p), (''care_schedule'', care_schedule p),
      (''health_records'', health_records p), (''indoor'', s)]"
  by (simp add: to_dict_def Pet_to_dict_def)

lemma to_dict_Bird:
  "variant p = Bird s \<Longrightarrow>
   to_dict p = PDict [(''type'', PStr ''Bird''), (''name'', name p), (''age'', age p),
      (''breed'', breed p), (''care_schedule'', care_schedule p),
      (''health_records'', health_records p), (''can_fly'', s)]"
  by (simp add: to_dict_def Pet_to_dict_def)

lemma create_pet_body_roundtrip: "create_pet_body today (to_dict p) = Inr (Some p)"
proof (cases "variant p")
  case (Dog s)
  then show ?thesis
    by (simp add: to_dict_Dog create_pet_body_def and_then_def Dog_init_eq)
next
  case (Cat s)
  then show ?thesis
    by (simp add: to_dict_Cat create_pet_body_def and_then_def Cat_init_eq)
next
  case (Bird s)
  then show ?thesis
    by (simp add: to_dict_Bird create_pet_body_def and_then_def Bird_init_eq)
qed

text \<open>
  C2. For every pet, of any variant and with any attributes, care schedule and health
  records, \<open>create_pet_from_data\<close> applied to the output of \<open>to_dict\<close> returns that same
  pet (same variant and variant attribute, same name, age and breed, the same two
  sequences), whatever the clock reads during the reconstruction, and prints nothing.
\<close>

theorem deserialize_serialize_roundtrip:
  "create_pet_from_data today (to_dict p) out = (Some p, out)"
  by (simp add: create_pet_from_data_def create_pet_body_roundtrip)

section \<open>Deserialization and loading\<close>

lemma create_pet_body_Dog:
  assumes "map_of kvs ''type'' = Some (PStr ''Dog'')" "map_of kvs ''name'' = Some n"
     "map_of kvs ''age'' = Some a" "map_of kvs ''breed'' = Some b"
  shows "create_pet_body today (PDict kvs) =
     Inr (Some \<lparr>variant = Dog (case map_of kvs ''size'' of None \<Rightarrow> PStr ''Medium'' | Some v \<Rightarrow> v),
                name = n, age = a, breed = b,
                care_schedule = (case map_of kvs ''care_schedule'' of None \<Rightarrow> PList [] | Some v \<Rightarrow> v),
                health_records = (case map_of kvs ''health_records'' of None \<Rightarrow> PList [] | Some v \<Rightarrow> v)\<rparr>)"
  using assms
  by (simp add: create_pet_body_def and_then_def Dog_init_eq)

lemma create_pet_body_Cat:
  assumes "map_of kvs ''type'' = Some (PStr ''Cat'')" "map_of kvs ''name'' = Some n"
     "map_of kvs ''age'' = Some a" "map_of kvs ''breed'' = Some b"
  shows "create_pet_body today (PDict kvs) =
     Inr (Some \<lparr>variant = Cat (case map_of kvs ''indoor'' of None \<Rightarrow> PBool True | Some v \<Rightarrow> v),
                name = n, age = a, breed = b,
                care_schedule = (case map_of kvs ''care_schedule'' of None \<Rightarrow> PList [] | Some v \<Rightarrow> v),
                health_records = (case map_of kvs ''health_records'' of None \<Rightarrow> PList [] | Some v \<Rightarrow> v)\<rparr>)"
  using assms
  by (simp add: create_pet_body_def and_then_def Cat_init_eq)

lemma create_pet_body_Bird:
  assumes "map_of kvs ''type'' = Some (PStr ''Bird'')" "map_of kvs ''name'' = Some n"
     "map_of kvs ''age'' = Some a" "map_of kvs ''breed'' = Some b"
  shows "create_pet_body today (PDict kvs) =
     Inr (Some \<lparr>variant = Bird (case map_of kvs ''can_fly'' of None \<Rightarrow> PBool True | Some v \<Rightarrow> v),
                name = n, age = a, breed = b,
                care_schedule = (case map_of kvs ''care_schedule'' of None \<Rightarrow> PList [] | Some v \<Rightarrow> v),
                health_records = (case map_of kvs ''health_records'' of None \<Rightarrow> PList [] | Some v \<Rightarrow> v)\<rparr>)"
  using assms
  by (simp add: create_pet_body_def and_then_def Bird_init_eq)

lemma create_pet_body_malformed:
  assumes "\<not> well_formed_record r"
  shows "create_pet_body today r = Inr None \<or> (\<exists>e. create_pet_body today r = Inl e)"
proof (cases r)
  case (PDict kvs)
  show ?thesis
  proof (cases "map_of kvs ''type''")
    case None
    with PDict show ?thesis by (simp add: create_pet_body_def and_then_def)
  next
    case ty: (Some ty)
    show ?thesis
    proof (cases "map_of kvs ''name''")
      case None
      with PDict ty show ?thesis by (simp add: create_pet_body_def and_then_def)
    next
      case n: (Some n)
      show ?thesis
      proof (cases "map_of kvs ''age''")
        case None
        with PDict ty n show ?thesis by (simp add: create_pet_body_def and_then_def)
      next
        case a: (Some a)
        show ?thesis
        proof (cases "map_of kvs ''breed''")
          case None
          with PDict ty n a show ?thesis by (simp add: create_pet_body_def and_then_def)
        next
          case b: (Some b)
          with assms PDict ty n a
          have "ty \<noteq> PStr ''Dog''" "ty \<noteq> PStr ''Cat''" "ty \<noteq> PStr ''Bird''"
            by (auto simp: well_formed_record_def)
          with PDict ty n a b show ?thesis
            by (simp add: create_pet_body_def and_then_def)
        qed
      qed
    qed
  qed
qed (simp_all add: create_pet_body_def and_then_def)

lemma well_formed_recordD:
  assumes "well_formed_record r"
  obtains kvs n a b where "r = PDict kvs" "map_of kvs ''name'' = Some n"
    "map_of kvs ''age'' = Some a" "map_of kvs ''breed'' = Some b"
    "map_of kvs ''type'' = Some (PStr ''Dog'') \<or> map_of kvs ''type'' = Some (PStr ''Cat'')
       \<or> map_of kvs ''type'' = Some (PStr ''Bird'')"
proof (cases r)
  case (PDict kvs)
  with assms show ?thesis
    using that [of kvs] by (auto simp: well_formed_record_def)
qed (use assms in \<open>simp_all add: well_formed_record_def\<close>)

lemma create_pet_body_well_formed:
  assumes "well_formed_record r"
  shows "\<exists>p. \<forall>today. create_pet_body today r = Inr (Some p)"
proof -
  from assms obtain kvs n a b where r: "r = PDict kvs" "map_of kvs ''name'' = Some n"
    "map_of kvs ''age'' = Some a" "map_of kvs ''breed'' = Some b"
    and ty: "map_of kvs ''type'' = Some (PStr ''Dog'') \<or> map_of kvs ''type'' = Some (PStr ''Cat'')
       \<or> map_of kvs ''type'' = Some (PStr ''Bird'')"
    by (rule well_formed_recordD)
  from ty show ?thesis
  proof (elim disjE)
    assume "map_of kvs ''type'' = Some (PStr ''Dog'')"
    from create_pet_body_Dog [OF this r(2-4)] r(1) show ?thesis by blast
  next
    assume "map_of kvs ''type'' = Some (PStr ''Cat'')"
    from create_pet_body_Cat [OF this r(2-4)] r(1) show ?thesis by blast
  next
    assume "map_of kvs ''type'' = Some (PStr ''Bird'')"
    from create_pet_body_Bird [OF this r(2-4)] r(1) show ?thesis by blast
  qed
qed

lemma created_iff_well_formed:
  "fst (create_pet_from_data today r out) = None \<longleftrightarrow> \<not> well_formed_record r"
proof (cases "well_formed_record r")
  case True
  from create_pet_body_well_formed [OF this] True show ?thesis
    by (auto simp: create_pet_from_data_def)
next
  case False
  from create_pet_body_malformed [OF this, of today] False show ?thesis
    by (auto simp: create_pet_from_data_def)
qed

lemma created_independent:
  "fst (create_pet_from_data today r out) = fst (create_pet_from_data today' r out')"
proof (cases "well_formed_record r")
  case True
  from create_pet_body_well_formed [OF this] show ?thesis
    by (auto simp: create_pet_from_data_def)
next
  case False
  then show ?thesis using created_iff_well_formed by metis
qed

lemma load_loop_pets:
  "pets (load_loop today i recs m) =
     pets m @ List.map_filter (\<lambda>r. fst (create_pet_from_data today0 r out0)) recs"
proof (induction recs arbitrary: i m)
  case Nil
  then show ?case by (simp add: List.map_filter_simps)
next
  case (Cons r recs)
  obtain c out where c: "create_pet_from_data (today i) r (stdout m) = (c, out)"
    by (cases "create_pet_from_data (today i) r (stdout m)")
  then have c0: "fst (create_pet_from_data today0 r out0) = c"
    using created_independent [of today0 r out0 "today i" "stdout m"] by simp
  show ?case
    using c c0 Cons.IH by (cases c) (simp_all add: List.map_filter_simps)
qed

text \<open>
  C3. Loading a stored document that is a list of records appends, in order, the pet of
  each record that yields one and nothing for the others; the function returns the manager
  in every case, so nothing propagates to the caller. A record yields no pet exactly when
  it is not well formed: its variant tag is none of Dog, Cat and Bird, or a required field
  (type, name, age, breed) is missing. So the number of pets grows by the number of
  well-formed records; a document with one well-formed record and one record with an
  unrecognized type loads to exactly the one pet (the witness).
\<close>

theorem load_data_skips_malformed_records:
  assumes "disk m = Document (PList recs)"
  shows "pets (load_data today m)
           = pets m @ List.map_filter (\<lambda>r. fst (create_pet_from_data today0 r out0)) recs
      \<and> (\<forall>r. fst (create_pet_from_data today0 r out0) = None \<longleftrightarrow> \<not> well_formed_record r)
      \<and> length (pets (load_data today m))
           = length (pets m) + length (filter well_formed_record recs)"
proof -
  let ?made = "\<lambda>r. fst (create_pet_from_data today0 r out0)"
  have loaded: "pets (load_data today m) = pets m @ List.map_filter ?made recs"
    using assms by (simp add: load_data_def load_loop_pets [of today 0 recs m today0 out0])
  have skipped: "?made r = None \<longleftrightarrow> \<not> well_formed_record r" for r
    by (rule created_iff_well_formed)
  have "length (List.map_filter ?made recs) = length (filter well_formed_record recs)"
    by (simp add: List.map_filter_def skipped cong: filter_cong)
  with loaded skipped show ?thesis by simp
qed

theorem load_data_skips_malformed_records_witness:
  "disk \<lparr>pets = [],
         disk = Document (PList
           [PDict [(''type'', PStr ''Dog''), (''name'', PStr ''Rex''), (''age'', PInt 3),
                   (''breed'', PStr ''Mixed''), (''care_schedule'', PList []),
                   (''health_records'', PList []), (''size'', PStr ''Medium'')],
            PDict [(''type'', PStr ''Fish''), (''name'', PStr ''Nemo''), (''age'', PInt 1),
                   (''breed'', PStr ''Clown'')]]),
         stdout = []\<rparr>
     = Document (PList
           [PDict [(''type'', PStr ''Dog''), (''name'', PStr ''Rex''), (''age'', PInt 3),
                   (''breed'', PStr ''Mixed''), (''care_schedule'', PList []),
                   (''health_records'', PList []), (''size'', PStr ''Medium'')],
            PDict [(''type'', PStr ''Fish''), (''name'', PStr ''Nemo''), (''age'', PInt 1),
                   (''breed'', PStr ''Clown'')]])
   \<and> pets (load_data (\<lambda>i j. ''2024-01-01'')
        \<lparr>pets = [],
         disk = Document (PList
           [PDict [(''type'', PStr ''Dog''), (''name'', PStr ''Rex''), (''age'', PInt 3),
                   (''breed'', PStr ''Mixed''), (''care_schedule'', PList []),
                   (''health_records'', PList []), (''size'', PStr ''Medium'')],
            PDict [(''type'', PStr ''Fish''), (''name'', PStr ''Nemo''), (''age'', PInt 1),
                   (''breed'', PStr ''Clown'')]]),
         stdout = []\<rparr>)
     = [\<lparr>variant = Dog (PStr ''Medium''), name = PStr ''Rex'', age = PInt 3,
         breed = PStr ''Mixed'', care_schedule = PList [], health_records = PList []\<rparr>]"
proof -
  let ?rex = "PDict [(''type'', PStr ''Dog''), (''name'', PStr ''Rex''), (''age'', PInt 3),
                   (''breed'', PStr ''Mixed''), (''care_schedule'', PList []),
                   (''health_records'', PList []), (''size'', PStr ''Medium'')]"
  let ?nemo = "PDict [(''type'', PStr ''Fish''), (''name'', PStr ''Nemo''), (''age'', PInt 1),
                   (''breed'', PStr ''Clown'')]"
  let ?m = "\<lparr>pets = [], disk = Document (PList [?rex, ?nemo]), stdout = []\<rparr>"
  have h: "disk ?m = Document (PList [?rex, ?nemo])" by simp
  have rex: "fst (create_pet_from_data (\<lambda>i. []) ?rex [])
      = Some \<lparr>variant = Dog (PStr ''Medium''), name = PStr ''Rex'', age = PInt 3,
         breed = PStr ''Mixed'', care_schedule = PList [], health_records = PList []\<rparr>"
    by (simp add: create_pet_from_data_def create_pet_body_Dog)
  have nemo: "fst (create_pet_from_data (\<lambda>i. []) ?nemo []) = None"
    by (simp add: create_pet_from_data_def create_pet_body_def and_then_def)
  from load_data_skips_malformed_records [OF h, of "\<lambda>i j. ''2024-01-01''" "\<lambda>i. []" "[]"]
  have "pets (load_data (\<lambda>i j. ''2024-01-01'') ?m)
      = [\<lparr>variant = Dog (PStr ''Medium''), name = PStr ''Rex'', age = PInt 3,
         breed = PStr ''Mixed'', care_schedule = PList [], health_records = PList []\<rparr>]"
    by (simp add: List.map_filter_simps rex nemo)
  with h show ?thesis by blast
qed

text \<open>
  C6. A record with a recognized variant tag and the required fields is reconstructed as a
  pet of the class the tag names, and a variant attribute that the record lacks takes the
  default: size "Medium" for a Dog, indoor \<open>True\<close> for a Cat, can_fly \<open>True\<close> for a
  Bird (an attribute that is present is taken as it is).
\<close>

theorem missing_variant_attribute_defaults:
  assumes "well_formed_record (PDict kvs)"
  shows "\<exists>p. fst (create_pet_from_data today (PDict kvs) out) = Some p
      \<and> map_of kvs ''type'' = Some (PStr (class_name (variant p)))
      \<and> (map_of kvs ''type'' = Some (PStr ''Dog'') \<longrightarrow>
            variant p = Dog (case map_of kvs ''size'' of None \<Rightarrow> PStr ''Medium'' | Some v \<Rightarrow> v))
      \<and> (map_of kvs ''type'' = Some (PStr ''Cat'') \<longrightarrow>
            variant p = Cat (case map_of kvs ''indoor'' of None \<Rightarrow> PBool True | Some v \<Rightarrow> v))
      \<and> (map_of kvs ''type'' = Some (PStr ''Bird'') \<longrightarrow>
            variant p = Bird (case map_of kvs ''can_fly'' of None \<Rightarrow> PBool True | Some v \<Rightarrow> v))"
proof -
  from assms obtain kvs' n a b where "PDict kvs = PDict kvs'" and r: "map_of kvs' ''name'' = Some n"
    "map_of kvs' ''age'' = Some a" "map_of kvs' ''breed'' = Some b"
    and ty: "map_of kvs' ''type'' = Some (PStr ''Dog'') \<or> map_of kvs' ''type'' = Some (PStr ''Cat'')
       \<or> map_of kvs' ''type'' = Some (PStr ''Bird'')"
    by (rule well_formed_recordD)
  then have [simp]: "kvs' = kvs" by simp
  from ty show ?thesis
  proof (elim disjE)
    assume t: "map_of kvs' ''type'' = Some (PStr ''Dog'')"
    from create_pet_body_Dog [OF t r, of today] t show ?thesis
      by (simp add: create_pet_from_data_def)
  next
    assume t: "map_of kvs' ''type'' = Some (PStr ''Cat'')"
    from create_pet_body_Cat [OF t r, of today] t show ?thesis
      by (simp add: create_pet_from_data_def)
  next
    assume t: "map_of kvs' ''type'' = Some (PStr ''Bird'')"
    from create_pet_body_Bird [OF t r, of today] t show ?thesis
      by (simp add: create_pet_from_data_def)
  qed
qed

theorem missing_variant_attribute_defaults_witness:
  "well_formed_record (PDict [(''type'', PStr ''Cat''), (''name'', PStr ''Tom''), (''age'', PInt 2),
                              (''breed'', PStr ''Mixed'')])
   \<and> (\<exists>p. fst (create_pet_from_data (\<lambda>i. ''2024-01-01'')
               (PDict [(''type'', PStr ''Cat''), (''name'', PStr ''Tom''), (''age'', PInt 2),
                       (''breed'', PStr ''Mixed'')]) []) = Some p
          \<and> variant p = Cat (PBool True))"
proof -
  let ?kvs = "[(''type'', PStr ''Cat''), (''name'', PStr ''Tom''), (''age'', PInt 2),
               (''breed'', PStr ''Mixed'')]"
  have h: "well_formed_record (PDict ?kvs)" by (simp add: well_formed_record_def)
  from missing_variant_attribute_defaults [OF h, of "\<lambda>i. ''2024-01-01''" "[]"]
  have "\<exists>p. fst (create_pet_from_data (\<lambda>i. ''2024-01-01'') (PDict ?kvs) []) = Some p
          \<and> variant p = Cat (PBool True)"
    by auto
  with h show ?thesis by blast
qed

text \<open>
  C10. A record with a recognized variant tag and the required fields that has no
  \<open>care_schedule\<close> key is reconstructed with an empty care schedule: the default tasks
  that the constructor seeded are replaced, not kept. Likewise a record with no
  \<open>health_records\<close> key is reconstructed with no health records.
\<close>

theorem missing_sequences_load_empty:
  assumes "well_formed_record (PDict kvs)"
  shows "\<exists>p. fst (create_pet_from_data today (PDict kvs) out) = Some p
      \<and> (map_of kvs ''care_schedule'' = None \<longrightarrow> care_schedule p = PList [])
      \<and> (map_of kvs ''health_records'' = None \<longrightarrow> health_records p = PList [])"
proof -
  from assms obtain kvs' n a b where "PDict kvs = PDict kvs'" and r: "map_of kvs' ''name'' = Some n"
    "map_of kvs' ''age'' = Some a" "map_of kvs' ''breed'' = Some b"
    and ty: "map_of kvs' ''type'' = Some (PStr ''Dog'') \<or> map_of kvs' ''type'' = Some (PStr ''Cat'')
       \<or> map_of kvs' ''type'' = Some (PStr ''Bird'')"
    by (rule well_formed_recordD)
  then have [simp]: "kvs' = kvs" by simp
  from ty show ?thesis
  proof (elim disjE)
    assume t: "map_of kvs' ''type'' = Some (PStr ''Dog'')"
    from create_pet_body_Dog [OF t r, of today] show ?thesis
      by (simp add: create_pet_from_data_def)
  next
    assume t: "map_of kvs' ''type'' = Some (PStr ''Cat'')"
    from create_pet_body_Cat [OF t r, of today] show ?thesis
      by (simp add: create_pet_from_data_def)
  next
    assume t: "map_of kvs' ''type'' = Some (PStr ''Bird'')"
    from create_pet_body_Bird [OF t r, of today] show ?thesis
      by (simp add: create_pet_from_data_def)
  qed
qed

theorem missing_sequences_load_empty_witness:
  "well_formed_record (PDict [(''type'', PStr ''Dog''), (''name'', PStr ''Rex''), (''age'', PInt 3),
                              (''breed'', PStr ''Mixed'')])
   \<and> (\<exists>p. fst (create_pet_from_data (\<lambda>i. ''2024-01-01'')
               (PDict [(''type'', PStr ''Dog''), (''name'', PStr ''Rex''), (''age'', PInt 3),
                       (''breed'', PStr ''Mixed'')]) []) = Some p
          \<and> care_schedule p = PList [] \<and> health_records p = PList [])"
proof -
  let ?kvs = "[(''type'', PStr ''Dog''), (''name'', PStr ''Rex''), (''age'', PInt 3),
               (''breed'', PStr ''Mixed'')]"
  have h: "well_formed_record (PDict ?kvs)" by (simp add: well_formed_record_def)
  from missing_sequences_load_empty [OF h, of "\<lambda>i. ''2024-01-01''" "[]"]
  have "\<exists>p. fst (create_pet_from_data (\<lambda>i. ''2024-01-01'') (PDict ?kvs) []) = Some p
          \<and> care_schedule p = PList [] \<and> health_records p = PList []"
    by simp
  with h show ?thesis by blast
qed

section \<open>The collection, construction and health records\<close>

text \<open>
  C4. For every manager state, every name string and whatever the write to the file does,
  \<open>remove_pet\<close> keeps exactly the pets whose name differs from the given one, in their
  order: it removes every pet of that name, not only the first. Afterwards
  \<open>get_pet_by_name\<close> with that name returns \<open>None\<close>. When no pet has the name, the
  collection is the same as before and the call, like any other, returns normally.
\<close>

theorem remove_pet_removes_all:
  "pets (remove_pet io n m) = filter (\<lambda>p. name p \<noteq> PStr n) (pets m)
   \<and> get_pet_by_name (remove_pet io n m) n = None
   \<and> ((\<forall>p \<in> set (pets m). name p \<noteq> PStr n) \<longrightarrow> pets (remove_pet io n m) = pets m)"
proof -
  have kept: "pets (remove_pet io n m) = filter (\<lambda>p. name p \<noteq> PStr n) (pets m)"
    by (cases io) (simp_all add: remove_pet_def save_data_def)
  have "find (\<lambda>p. name p = PStr n) (filter (\<lambda>p. name p \<noteq> PStr n) (pets m)) = None"
    by (simp add: find_None_iff)
  with kept have absent: "get_pet_by_name (remove_pet io n m) n = None"
    by (simp add: get_pet_by_name_def)
  have "filter (\<lambda>p. name p \<noteq> PStr n) (pets m) = pets m"
    if "\<forall>p \<in> set (pets m). name p \<noteq> PStr n"
    using that by (simp add: filter_id_conv)
  with kept absent show ?thesis by simp
qed

theorem remove_pet_removes_all_witness:
  "pets (remove_pet Written ''Rex''
      \<lparr>pets = [\<lparr>variant = Dog (PStr ''Medium''), name = PStr ''Rex'', age = PInt 3,
                 breed = PStr ''Mixed'', care_schedule = PList [], health_records = PList []\<rparr>,
                \<lparr>variant = Cat (PBool True), name = PStr ''Tom'', age = PInt 2,
                 breed = PStr ''Mixed'', care_schedule = PList [], health_records = PList []\<rparr>,
                \<lparr>variant = Bird (PBool True), name = PStr ''Rex'', age = PInt 1,
                 breed = PStr ''Unknown'', care_schedule = PList [], health_records = PList []\<rparr>],
       disk = No_file, stdout = []\<rparr>)
     = [\<lparr>variant = Cat (PBool True), name = PStr ''Tom'', age = PInt 2,
         breed = PStr ''Mixed'', care_schedule = PList [], health_records = PList []\<rparr>]
   \<and> pets (remove_pet Written ''Rex''
      \<lparr>pets = [\<lparr>variant = Cat (PBool True), name = PStr ''Tom'', age = PInt 2,
                 breed = PStr ''Mixed'', care_schedule = PList [], health_records = PList []\<rparr>],
       disk = No_file, stdout = []\<rparr>)
     = [\<lparr>variant = Cat (PBool True), name = PStr ''Tom'', age = PInt 2,
         breed = PStr ''Mixed'', care_schedule = PList [], health_records = PList []\<rparr>]"
proof -
  let ?rex = "\<lparr>variant = Dog (PStr ''Medium''), name = PStr ''Rex'', age = PInt 3,
                 breed = PStr ''Mixed'', care_schedule = PList [], health_records = PList []\<rparr>"
  let ?tom = "\<lparr>variant = Cat (PBool True), name = PStr ''Tom'', age = PInt 2,
                 breed = PStr ''Mixed'', care_schedule = PList [], health_records = PList []\<rparr>"
  let ?bird = "\<lparr>variant = Bird (PBool True), name = PStr ''Rex'', age = PInt 1,
                 breed = PStr ''Unknown'', care_schedule = PList [], health_records = PList []\<rparr>"
  let ?m = "\<lparr>pets = [?rex, ?tom, ?bird], disk = No_file, stdout = []\<rparr>"
  let ?m' = "\<lparr>pets = [?tom], disk = No_file, stdout = []\<rparr>"
  have a: "pets (remove_pet Written ''Rex'' ?m) = [?tom]"
    using remove_pet_removes_all [of Written "''Rex''" ?m] by simp
  have none: "\<forall>p \<in> set (pets ?m'). name p \<noteq> PStr ''Rex''" by simp
  have b: "pets (remove_pet Written ''Rex'' ?m') = [?tom]"
    using remove_pet_removes_all [of Written "''Rex''" ?m'] none by simp
  from a b show ?thesis by blast
qed




text \<open>
  C7. \<open>save_data\<close> never changes the pet collection, whatever the file system does. When
  the write raises an exception \<open>e\<close>, the handler prints one line reporting \<open>e\<close>, the
  call returns normally, and the manager differs from the one before only in the console
  and in what the failed write left in the file. So a pet added while the write fails is
  still in the collection.
\<close>

theorem save_data_failure_is_contained:
  "pets (save_data io m) = pets m
   \<and> save_data (Write_fails e f) m = m\<lparr>disk := f, stdout := stdout m @ [Error_saving e]\<rparr>
   \<and> pets (add_pet (Write_fails e f) p m) = pets m @ [p]"
proof -
  have "pets (save_data io m) = pets m" for io m
    by (cases io) (simp_all add: save_data_def)
  then show ?thesis
    by (simp add: add_pet_def) (simp add: save_data_def)
qed

text \<open>
  C8. For every pet whose health records are a list, and for arguments of any value
  (nothing is validated), \<open>add_health_record\<close> returns normally; it appends one entry
  with the given type and description at the end of the list and changes nothing else:
  the earlier entries stay, in order, and the length grows by one. The date of the new
  entry is the given one, and the current date when the date is \<open>None\<close> or omitted.
\<close>

theorem add_health_record_appends_one:
  assumes "health_records p = PList hs"
  shows "add_health_record today record_type description date p =
     Inr (p\<lparr>health_records :=
             PList (hs @ [PDict [(''type'', record_type), (''description'', description),
                                 (''date'', if date = PNone then PStr today else date)]])\<rparr>)"
  using assms by (simp add: add_health_record_def and_then_def)

theorem add_health_record_appends_one_witness:
  "health_records \<lparr>variant = Cat (PBool True), name = PStr ''Tom'', age = PInt 2,
                   breed = PStr ''Mixed'', care_schedule = PList [],
                   health_records = PList [PDict [(''type'', PStr ''Checkup''),
                       (''description'', PStr ''Annual''), (''date'', PStr ''2023-06-01'')]]\<rparr>
     = PList [PDict [(''type'', PStr ''Checkup''),
                       (''description'', PStr ''Annual''), (''date'', PStr ''2023-06-01'')]]
   \<and> add_health_record ''2024-01-01'' (PStr ''Vaccination'') (PStr ''Rabies shot'') PNone
       \<lparr>variant = Cat (PBool True), name = PStr ''Tom'', age = PInt 2,
        breed = PStr ''Mixed'', care_schedule = PList [],
        health_records = PList [PDict [(''type'', PStr ''Checkup''),
            (''description'', PStr ''Annual''), (''date'', PStr ''2023-06-01'')]]\<rparr>
     = Inr \<lparr>variant = Cat (PBool True), name = PStr ''Tom'', age = PInt 2,
        breed = PStr ''Mixed'', care_schedule = PList [],
        health_records = PList [PDict [(''type'', PStr ''Checkup''),
            (''description'', PStr ''Annual''), (''date'', PStr ''2023-06-01'')],
          PDict [(''type'', PStr ''Vaccination''), (''description'', PStr ''Rabies shot''),
                 (''date'', PStr ''2024-01-01'')]]\<rparr>"
proof -
  let ?old = "PDict [(''type'', PStr ''Checkup''),
                       (''description'', PStr ''Annual''), (''date'', PStr ''2023-06-01'')]"
  let ?p = "\<lparr>variant = Cat (PBool True), name = PStr ''Tom'', age = PInt 2,
        breed = PStr ''Mixed'', care_schedule = PList [], health_records = PList [?old]\<rparr>"
  have h: "health_records ?p = PList [?old]" by simp
  from add_health_record_appends_one [OF h, of "''2024-01-01''" "PStr ''Vaccination''"
      "PStr ''Rabies shot''" PNone]
  show ?thesis by simp
qed

lemma overdue_step_same_day:
  assumes "date_of now = date_of now'"
  shows "overdue_step cal now e acc = overdue_step cal now' e acc"
proof (cases "getitem e ''last_done''")
  case (Inl err)
  then show ?thesis by (simp add: overdue_step_def and_then_def)
next
  case (Inr ld)
  show ?thesis
  proof (cases "strptime cal ld")
    case (Inl err)
    with Inr show ?thesis by (simp add: overdue_step_def and_then_def)
  next
    case t: (Inr t)
    then obtain d where "t = midnight d"
      by (cases ld) (auto split: option.splits)
    with Inr t assms show ?thesis
      by (simp add: overdue_step_def and_then_def days_since_midnight)
  qed
qed

lemma overdue_loop_same_day:
  assumes "date_of now = date_of now'"
  shows "overdue_loop cal now es acc = overdue_loop cal now' es acc"
proof (induction es arbitrary: acc)
  case Nil
  show ?case by simp
next
  case (Cons e es)
  show ?case
    using overdue_step_same_day [OF assms, of cal e acc] Cons.IH
    by (cases "overdue_step cal now' e acc") (simp_all add: and_then_def)
qed

text \<open>
  C9. The overdue query leaves the pet as it was: its care schedule, its health records
  and every other attribute. A second evaluation on the same pet, at a clock reading of the
  same date, returns the same result as the first (the same list, or the same exception).
\<close>

theorem get_overdue_tasks_is_pure_read:
  assumes "date_of now = date_of now'"
  shows "fst (get_overdue_tasks cal now p) = p
      \<and> get_overdue_tasks cal now' (fst (get_overdue_tasks cal now p))
          = get_overdue_tasks cal now p"
proof -
  have "overdue_loop cal now es [] = overdue_loop cal now' es []" for es
    by (rule overdue_loop_same_day [OF assms])
  then show ?thesis
    by (cases "iter_py (care_schedule p)") (simp_all add: get_overdue_tasks_def and_then_def)
qed

theorem get_overdue_tasks_is_pure_read_witness:
  "date_of (midnight 738893 + 1) = date_of (midnight 738893 + 43200000000)
   \<and> get_overdue_tasks (map_of [(''2024-01-01'', 738886)]) (midnight 738893 + 43200000000)
       (fst (get_overdue_tasks (map_of [(''2024-01-01'', 738886)]) (midnight 738893 + 1)
          \<lparr>variant = Dog (PStr ''Medium''), name = PStr ''Rex'', age = PInt 3,
           breed = PStr ''Mixed'',
           care_schedule = PList [care_task ''Bath'' 7 ''2024-01-01''],
           health_records = PList []\<rparr>))
     = (\<lparr>variant = Dog (PStr ''Medium''), name = PStr ''Rex'', age = PInt 3,
         breed = PStr ''Mixed'',
         care_schedule = PList [care_task ''Bath'' 7 ''2024-01-01''],
         health_records = PList []\<rparr>,
        Inr [report (PStr ''Bath'') 1])"
proof -
  let ?p = "\<lparr>variant = Dog (PStr ''Medium''), name = PStr ''Rex'', age = PInt 3,
           breed = PStr ''Mixed'',
           care_schedule = PList [care_task ''Bath'' 7 ''2024-01-01''],
           health_records = PList []\<rparr>"
  let ?cal = "map_of [(''2024-01-01'', 738886::int)]"
  have h: "date_of (midnight 738893 + 1) = date_of (midnight 738893 + 43200000000)"
    by (simp add: date_of_def midnight_def us_per_day_def)
  have run: "get_overdue_tasks ?cal (midnight 738893 + 1) ?p = (?p, Inr [report (PStr ''Bath'') 1])"
    by (simp add: get_overdue_tasks_def and_then_def overdue_step_def care_task_def report_def
        days_def midnight_def us_per_day_def)
  from get_overdue_tasks_is_pure_read [OF h, of ?cal ?p] run h show ?thesis
    by simp
qed

text \<open>Two concrete runs: a round trip of a Cat, and a write that fails after an addition.\<close>

theorem deserialize_serialize_roundtrip_witness:
  "create_pet_from_data (\<lambda>i. ''2024-01-01'')
     (PDict [(''type'', PStr ''Cat''), (''name'', PStr ''Tom''), (''age'', PInt 2),
             (''breed'', PStr ''Mixed''),
             (''care_schedule'', PList [care_task ''Feed'' 1 ''2023-12-31'']),
             (''health_records'', PList []), (''indoor'', PBool False)]) []
   = (Some \<lparr>variant = Cat (PBool False), name = PStr ''Tom'', age = PInt 2,
            breed = PStr ''Mixed'',
            care_schedule = PList [care_task ''Feed'' 1 ''2023-12-31''],
            health_records = PList []\<rparr>, [])"
  using deserialize_serialize_roundtrip [of "\<lambda>i. ''2024-01-01''"
      "\<lparr>variant = Cat (PBool False), name = PStr ''Tom'', age = PInt 2,
        breed = PStr ''Mixed'',
        care_schedule = PList [care_task ''Feed'' 1 ''2023-12-31''],
        health_records = PList []\<rparr>" "[]"]
  by (simp add: to_dict_Cat)

theorem save_data_failure_is_contained_witness:
  "add_pet (Write_fails OSError No_file)
     \<lparr>variant = Bird (PBool True), name = PStr ''Kiwi'', age = PInt 1,
      breed = PStr ''Unknown'', care_schedule = PList [], health_records = PList []\<rparr>
     \<lparr>pets = [], disk = No_file, stdout = []\<rparr>
   = \<lparr>pets = [\<lparr>variant = Bird (PBool True), name = PStr ''Kiwi'', age = PInt 1,
               breed = PStr ''Unknown'', care_schedule = PList [],
               health_records = PList []\<rparr>],
      disk = No_file, stdout = [Error_saving OSError]\<rparr>"
  using save_data_failure_is_contained [of Written "\<lparr>pets = [], disk = No_file, stdout = []\<rparr>"
      OSError No_file
      "\<lparr>variant = Bird (PBool True), name = PStr ''Kiwi'', age = PInt 1,
        breed = PStr ''Unknown'', care_schedule = PList [], health_records = PList []\<rparr>"]
  by (simp add: add_pet_def save_data_def)

end
